theory Spec2Isabelle
  imports Complex_Main
begin

section \<open>Carrier detection (thrifty/carrier\_detect.py)\<close>

text \<open>
  The module is a set of pure functions over a magnitude spectrum. Python integers are
  modelled as \<open>int\<close>. Array elements, threshold coefficients and filter weights are finite
  real numbers; rounding and overflow of the machine floats are not modelled. The values
  that the module computes by division and square root can leave the finite reals (a
  division by \<open>len(fft_mag) - 1 = 0\<close>, a square root of a negative power), so they are
  modelled by the type \<open>fl\<close>: a finite real, one of the two infinities, or NaN, with the
  IEEE 754 rules for the operations the module uses.
\<close>

subsection \<open>Errors\<close>

text \<open>
  \<open>OutOfRange start stop\<close> is the \<open>ValueError\<close> raised by \<open>fft_range_index\<close>; its message
  names the two bounds. \<open>EmptyTake\<close> is the \<open>IndexError\<close> of \<open>np.take\<close> on an empty array,
  \<open>EmptyArgmax\<close> the \<open>ValueError\<close> of \<open>np.argmax\<close> on an empty array.
\<close>

datatype error = OutOfRange int int | EmptyTake | EmptyArgmax

subsection \<open>Float results\<close>

datatype fl = Fin real | PInf | NInf | NaN

fun fl_add :: "fl \<Rightarrow> fl \<Rightarrow> fl" where
  "fl_add NaN _ = NaN"
| "fl_add _ NaN = NaN"
| "fl_add PInf NInf = NaN"
| "fl_add NInf PInf = NaN"
| "fl_add PInf _ = PInf"
| "fl_add _ PInf = PInf"
| "fl_add NInf _ = NInf"
| "fl_add _ NInf = NInf"
| "fl_add (Fin a) (Fin b) = Fin (a + b)"

text \<open>The sign of an infinite product; an infinity times zero is NaN.\<close>

definition inf_times :: "bool \<Rightarrow> real \<Rightarrow> fl" where
  "inf_times pos a =
     (if a = 0 then NaN else if (0 < a) = pos then PInf else NInf)"

fun fl_mul :: "fl \<Rightarrow> fl \<Rightarrow> fl" where
  "fl_mul NaN _ = NaN"
| "fl_mul _ NaN = NaN"
| "fl_mul (Fin a) (Fin b) = Fin (a * b)"
| "fl_mul (Fin a) PInf = inf_times True a"
| "fl_mul (Fin a) NInf = inf_times False a"
| "fl_mul PInf (Fin b) = inf_times True b"
| "fl_mul NInf (Fin b) = inf_times False b"
| "fl_mul PInf PInf = PInf"
| "fl_mul NInf NInf = PInf"
| "fl_mul PInf NInf = NInf"
| "fl_mul NInf PInf = NInf"

text \<open>
  Division. The only divisor in the module is the integer \<open>len(fft_mag) - 1\<close>, so a zero
  divisor is the positive zero: a nonzero finite dividend gives the infinity of its sign,
  and \<open>0 / 0\<close> is NaN.
\<close>

fun fl_div :: "fl \<Rightarrow> fl \<Rightarrow> fl" where
  "fl_div NaN _ = NaN"
| "fl_div _ NaN = NaN"
| "fl_div (Fin a) (Fin b) =
     (if b = 0 then (if 0 < a then PInf else if a < 0 then NInf else NaN)
      else Fin (a / b))"
| "fl_div (Fin a) PInf = Fin 0"
| "fl_div (Fin a) NInf = Fin 0"
| "fl_div PInf (Fin b) = (if 0 \<le> b then PInf else NInf)"
| "fl_div NInf (Fin b) = (if 0 \<le> b then NInf else PInf)"
| "fl_div PInf PInf = NaN"
| "fl_div PInf NInf = NaN"
| "fl_div NInf PInf = NaN"
| "fl_div NInf NInf = NaN"

text \<open>\<open>np.sqrt\<close>: NaN on a negative argument (HOL's \<open>sqrt\<close> is never applied to one).\<close>

fun fl_sqrt :: "fl \<Rightarrow> fl" where
  "fl_sqrt (Fin a) = (if a < 0 then NaN else Fin (sqrt a))"
| "fl_sqrt PInf = PInf"
| "fl_sqrt NInf = NaN"
| "fl_sqrt NaN = NaN"

text \<open>The comparison \<open>a > b\<close>: false as soon as one side is NaN.\<close>

fun fl_gt :: "fl \<Rightarrow> fl \<Rightarrow> bool" where
  "fl_gt NaN _ = False"
| "fl_gt _ NaN = False"
| "fl_gt (Fin a) (Fin b) = (b < a)"
| "fl_gt PInf PInf = False"
| "fl_gt PInf _ = True"
| "fl_gt NInf _ = False"
| "fl_gt (Fin a) NInf = True"
| "fl_gt (Fin a) PInf = False"

definition fl_lt :: "fl \<Rightarrow> fl \<Rightarrow> bool" where
  "fl_lt a b = fl_gt b a"

subsection \<open>fft\_range\_index\<close>

text \<open>
  \<^verbatim>\<open>
  if abs(start) >= length or abs(stop) >= length: raise ValueError(...)
  if start < 0 and stop >= 0: start, stop = length+start, length+stop
  if start < 0: start = length+start
  if stop < 0: stop = length+stop
  if stop < start: start, stop = stop, start
  return start, stop
  \<close>
\<close>

definition fft_range_index :: "int \<Rightarrow> int \<Rightarrow> int \<Rightarrow> error + int \<times> int" where
  "fft_range_index start stop len =
     (if len \<le> \<bar>start\<bar> \<or> len \<le> \<bar>stop\<bar> then Inl (OutOfRange start stop)
      else
        let (start1, stop1) =
              (if start < 0 \<and> 0 \<le> stop then (len + start, len + stop) else (start, stop));
            start2 = (if start1 < 0 then len + start1 else start1);
            stop2 = (if stop1 < 0 then len + stop1 else stop1)
        in Inr (if stop2 < start2 then (stop2, start2) else (start2, stop2)))"

text \<open>
  The resolution rule in the specification's words: each negative bound is replaced by
  \<open>length + bound\<close>, independently of the other, and the two are swapped if the resolved
  stop is below the resolved start.
\<close>

definition resolve_range_spec :: "int \<Rightarrow> int \<Rightarrow> int \<Rightarrow> error + int \<times> int" where
  "resolve_range_spec start stop len =
     (if len \<le> \<bar>start\<bar> \<or> len \<le> \<bar>stop\<bar> then Inl (OutOfRange start stop)
      else
        let start_idx = (if start < 0 then len + start else start);
            stop_idx = (if stop < 0 then len + stop else stop)
        in Inr (if stop_idx < start_idx then (stop_idx, start_idx) else (start_idx, stop_idx)))"

subsection \<open>Window extraction\<close>

text \<open>
  \<open>np.take(array, indices, mode='wrap')\<close>: every index is taken modulo the array length;
  taking from an empty array raises.
\<close>

definition np_take_wrap :: "real list \<Rightarrow> int list \<Rightarrow> error + real list" where
  "np_take_wrap array idxs =
     (if array = [] \<and> idxs \<noteq> [] then Inl EmptyTake
      else Inr (map (\<lambda>i. array ! nat (i mod int (length array))) idxs))"

text \<open>
  \<^verbatim>\<open>
  if window is None: start, stop = 0, -1
  else: start, stop = window
  start_idx, stop_idx = fft_range_index(start, stop, len(array))
  selection = np.take(array, range(start_idx, stop_idx+1), mode='wrap')
  return selection, start_idx
  \<close>
\<close>

definition get_window :: "real list \<Rightarrow> (int \<times> int) option \<Rightarrow> error + real list \<times> int" where
  "get_window array window =
     (let (start, stop) = (case window of None \<Rightarrow> (0, - 1) | Some w \<Rightarrow> w)
      in case fft_range_index start stop (int (length array)) of
           Inl e \<Rightarrow> Inl e
         | Inr (start_idx, stop_idx) \<Rightarrow>
             (case np_take_wrap array [start_idx..stop_idx] of
                Inl e \<Rightarrow> Inl e
              | Inr selection \<Rightarrow> Inr (selection, start_idx)))"

subsection \<open>Peak search\<close>

text \<open>
  \<open>np.argmax\<close>: the index of the first maximum; raises on an empty array. The scan keeps
  the best value and its index and replaces them only on a strictly larger element.
\<close>

fun argmax_scan :: "real \<Rightarrow> nat \<Rightarrow> nat \<Rightarrow> real list \<Rightarrow> nat" where
  "argmax_scan best besti i [] = besti"
| "argmax_scan best besti i (x # xs) =
     (if best < x then argmax_scan x i (Suc i) xs else argmax_scan best besti (Suc i) xs)"

definition np_argmax :: "real list \<Rightarrow> error + nat" where
  "np_argmax xs = (case xs of [] \<Rightarrow> Inl EmptyArgmax | x # rest \<Rightarrow> Inr (argmax_scan x 0 1 rest))"

text \<open>
  \<open>scipy.signal.lfilter(b, 1, x)\<close>: the causal FIR filter
  \<open>y[n] = b[0] x[n] + b[1] x[n-1] + ...\<close> with zero history before \<open>x[0]\<close>.
\<close>

definition lfilter :: "real list \<Rightarrow> real list \<Rightarrow> real list" where
  "lfilter b x =
     map (\<lambda>n. \<Sum>k\<leftarrow>[0..<min (Suc n) (length b)]. b ! k * x ! (n - k)) [0..<length x]"

text \<open>
  \<^verbatim>\<open>
  delay = len(weights) - np.argmax(weights) - 1
  coeffs = weights[::-1]**2
  filtered = np.sqrt(scipy.signal.lfilter(coeffs, 1, fft_mag**2))
  return filtered, delay
  \<close>
\<close>

definition filter_weights :: "real list \<Rightarrow> real list \<Rightarrow> error + real list \<times> int" where
  "filter_weights fft_mag weights =
     (case np_argmax weights of
        Inl e \<Rightarrow> Inl e
      | Inr am \<Rightarrow>
          (let delay = int (length weights) - int am - 1;
               coeffs = map (\<lambda>w. w\<^sup>2) (rev weights);
               filtered = map sqrt (lfilter coeffs (map (\<lambda>m. m\<^sup>2) fft_mag))
           in Inr (filtered, delay)))"

text \<open>
  \<^verbatim>\<open>
  mags, start_idx = _get_window(fft_mag, window)
  if peak_filter is not None: mags, filter_delay = _filter(mags, peak_filter)
  else: filter_delay = 0
  max_idx = np.argmax(mags)
  peak_mag = mags[max_idx]
  peak_idx = max_idx - filter_delay
  peak_idx += start_idx
  if peak_idx > len(fft_mag): peak_idx -= len(fft_mag)
  return peak_idx, peak_mag
  \<close>
\<close>

definition window_peak ::
  "real list \<Rightarrow> (int \<times> int) option \<Rightarrow> real list option \<Rightarrow> error + int \<times> real" where
  "window_peak fft_mag window peak_filter =
     (case get_window fft_mag window of
        Inl e \<Rightarrow> Inl e
      | Inr (mags0, start_idx) \<Rightarrow>
          (case (case peak_filter of
                   Some weights \<Rightarrow> filter_weights mags0 weights
                 | None \<Rightarrow> Inr (mags0, 0)) of
             Inl e \<Rightarrow> Inl e
           | Inr (mags, filter_delay) \<Rightarrow>
               (case np_argmax mags of
                  Inl e \<Rightarrow> Inl e
                | Inr max_idx \<Rightarrow>
                    (let peak_mag = mags ! max_idx;
                         peak_idx = int max_idx - filter_delay + start_idx;
                         peak_idx' = (if int (length fft_mag) < peak_idx
                                      then peak_idx - int (length fft_mag) else peak_idx)
                     in Inr (peak_idx', peak_mag)))))"

subsection \<open>Noise estimate and threshold\<close>

text \<open>
  \<^verbatim>\<open>
  fft_energy = np.sum(fft_mag**2)
  peak_power = peak_mag**2
  noise_power = (fft_energy - 2*peak_power) / (len(fft_mag) - 1)
  return np.sqrt(noise_power)
  \<close>
\<close>

definition estimate_noise :: "real list \<Rightarrow> real \<Rightarrow> fl" where
  "estimate_noise fft_mag peak_mag =
     (let fft_energy = (\<Sum>x\<leftarrow>fft_mag. x\<^sup>2);
          peak_power = peak_mag\<^sup>2;
          noise_power = fl_div (Fin (fft_energy - 2 * peak_power))
                               (Fin (of_int (int (length fft_mag) - 1)))
      in fl_sqrt noise_power)"

text \<open>
  \<open>np.std\<close>: the population standard deviation, the square root of the variance
  \<open>mean(abs(x - mean(x))**2)\<close>; NaN on an empty array.
\<close>

definition np_mean :: "real list \<Rightarrow> real" where
  "np_mean xs = sum_list xs / real (length xs)"

definition np_var :: "real list \<Rightarrow> real" where
  "np_var xs = np_mean (map (\<lambda>x. \<bar>x - np_mean xs\<bar>\<^sup>2) xs)"

definition np_std :: "real list \<Rightarrow> fl" where
  "np_std xs = (if xs = [] then NaN else Fin (sqrt (np_var xs)))"

text \<open>
  \<^verbatim>\<open>
  thresh_const, thresh_snr, thresh_stddev = thresh_coeffs
  stddev = np.std(fft_mag) if thresh_stddev else 0
  thresh = (thresh_const + thresh_snr * noise_rms**2 + thresh_stddev * stddev**2)
  return np.sqrt(thresh)
  \<close>
\<close>

definition calculate_threshold :: "real list \<Rightarrow> real \<times> real \<times> real \<Rightarrow> fl \<Rightarrow> fl" where
  "calculate_threshold fft_mag thresh_coeffs noise_rms =
     (case thresh_coeffs of (thresh_const, thresh_snr, thresh_stddev) \<Rightarrow>
        (let stddev = (if thresh_stddev \<noteq> 0 then np_std fft_mag else Fin 0);
             thresh = fl_add (fl_add (Fin thresh_const)
                                     (fl_mul (Fin thresh_snr) (fl_mul noise_rms noise_rms)))
                             (fl_mul (Fin thresh_stddev) (fl_mul stddev stddev))
         in fl_sqrt thresh))"

subsection \<open>detect\<close>

text \<open>
  \<^verbatim>\<open>
  peak_idx, peak_mag = _window_peak(fft_mag, window, peak_filter)
  noise_rms = _estimate_noise(fft_mag, peak_mag)
  threshold = _calculate_threshold(fft_mag, thresh_coeffs, noise_rms)
  detected = (peak_mag > threshold)
  return detected, peak_idx, peak_mag, noise_rms
  \<close>
\<close>

definition detect ::
  "real list \<Rightarrow> real \<times> real \<times> real \<Rightarrow> (int \<times> int) option \<Rightarrow> real list option
     \<Rightarrow> error + bool \<times> int \<times> real \<times> fl" where
  "detect fft_mag thresh_coeffs window peak_filter =
     (case window_peak fft_mag window peak_filter of
        Inl e \<Rightarrow> Inl e
      | Inr (peak_idx, peak_mag) \<Rightarrow>
          (let noise_rms = estimate_noise fft_mag peak_mag;
               threshold = calculate_threshold fft_mag thresh_coeffs noise_rms;
               detected = fl_gt (Fin peak_mag) threshold
           in Inr (detected, peak_idx, peak_mag, noise_rms)))"

section \<open>Properties of fft\_range\_index\<close>

text \<open>
  C3. With length 1024, \<open>fft_range_index\<close> returns \<open>(50, 100)\<close> for \<open>(50, 100)\<close>,
  \<open>(0, 1023)\<close> for \<open>(0, -1)\<close>, \<open>(1014, 1034)\<close> for \<open>(-10, 10)\<close> and \<open>(1023, 1024)\<close> for
  \<open>(-1, 0)\<close>: the four examples of the docstring.
\<close>

theorem fft_range_index_examples:
  "fft_range_index 50 100 1024 = Inr (50, 100)
   \<and> fft_range_index 0 (- 1) 1024 = Inr (0, 1023)
   \<and> fft_range_index (- 10) 10 1024 = Inr (1014, 1034)
   \<and> fft_range_index (- 1) 0 1024 = Inr (1023, 1024)"
  by (simp add: fft_range_index_def)

subsection \<open>Resolution of valid bounds\<close>

lemma fft_range_index_valid:
  assumes "\<bar>start\<bar> < len" and "\<bar>stop\<bar> < len"
  shows "fft_range_index start stop len =
           (if start < 0 \<and> 0 \<le> stop then Inr (len + start, len + stop)
            else resolve_range_spec start stop len)"
  using assms by (auto simp: fft_range_index_def resolve_range_spec_def Let_def)

lemma fft_range_index_sorted:
  assumes "\<bar>start\<bar> < len" and "\<bar>stop\<bar> < len"
  shows "\<exists>a b. fft_range_index start stop len = Inr (a, b) \<and> a \<le> b \<and> 0 \<le> a \<and> a < len
           \<and> b < 2 * len"
  using assms by (auto simp: fft_range_index_def Let_def)

lemma fft_range_index_again:
  assumes "\<bar>start\<bar> < len" and "\<bar>stop\<bar> < len"
    and "fft_range_index start stop len = Inr (a, b)"
  shows "fft_range_index a b len =
           (if start < 0 \<and> 0 \<le> stop then Inl (OutOfRange a b) else Inr (a, b))"
  using assms by (auto simp: fft_range_index_def Let_def split: if_splits)

lemma fft_range_index_Inl:
  "fft_range_index start stop len = Inl e \<Longrightarrow>
     e = OutOfRange start stop \<and> (len \<le> \<bar>start\<bar> \<or> len \<le> \<bar>stop\<bar>)"
  by (auto simp: fft_range_index_def Let_def split: if_splits prod.splits)

lemma fft_range_index_invalid:
  "len \<le> \<bar>start\<bar> \<or> len \<le> \<bar>stop\<bar> \<Longrightarrow>
     fft_range_index start stop len = Inl (OutOfRange start stop)"
  by (auto simp: fft_range_index_def)

text \<open>
  C1. The claim: for valid bounds each negative bound is replaced by \<open>length + bound\<close>
  independently of the other, and no length offset is ever added to a non-negative bound.
  The code decides otherwise for a window that straddles bin 0: when \<open>start < 0 \<le> stop\<close>
  it shifts both bounds by the length, the non-negative stop too, as its docstring
  example \<open>fft_range_index(-10, 10, 1024) = (1014, 1034)\<close> says.
\<close>

theorem fft_range_index_offset_counterexample:
  "fft_range_index (- 10) 10 1024 = Inr (1014, 1034)
   \<and> resolve_range_spec (- 10) 10 1024 = Inr (10, 1014)
   \<and> fft_range_index (- 10) 10 1024 \<noteq> resolve_range_spec (- 10) 10 1024"
  by (simp add: fft_range_index_def resolve_range_spec_def)

text \<open>
  C1, as the code has it: for valid bounds, a window with \<open>start < 0 \<le> stop\<close> resolves to
  \<open>(length + start, length + stop)\<close>, unswapped; every other window resolves by the
  independent conversion of its negative bounds followed by the swap check.
\<close>

theorem fft_range_index_resolution:
  assumes "\<bar>start\<bar> < len" and "\<bar>stop\<bar> < len"
  shows "(start < 0 \<and> 0 \<le> stop \<longrightarrow>
            fft_range_index start stop len = Inr (len + start, len + stop)
            \<and> len + start < len + stop)
         \<and> (\<not> (start < 0 \<and> 0 \<le> stop) \<longrightarrow>
            fft_range_index start stop len = resolve_range_spec start stop len)"
  using fft_range_index_valid [OF assms] by auto

theorem fft_range_index_resolution_witness:
  "\<bar>- 1 :: int\<bar> < 1024 \<and> \<bar>0 :: int\<bar> < 1024
   \<and> fft_range_index (- 1) 0 1024 = Inr (1023, 1024)
   \<and> \<bar>100 :: int\<bar> < 1024 \<and> \<bar>- 50 :: int\<bar> < 1024
   \<and> fft_range_index 100 (- 50) 1024 = Inr (100, 974)
   \<and> resolve_range_spec 100 (- 50) 1024 = Inr (100, 974)"
  using fft_range_index_resolution [of "- 1" 1024 0]
    fft_range_index_resolution [of 100 1024 "- 50"]
  by (simp add: resolve_range_spec_def)

text \<open>
  C4. The claim: for valid bounds the output satisfies \<open>start_idx \<le> stop_idx\<close>, and
  applying \<open>fft_range_index\<close> to its own output gives the same pair without error. The
  second part fails for a window that straddles bin 0, whose resolved stop is at least
  the length: the second application raises.
\<close>

theorem fft_range_index_idempotent_counterexample:
  "\<bar>- 10 :: int\<bar> < 1024 \<and> \<bar>10 :: int\<bar> < 1024
   \<and> fft_range_index (- 10) 10 1024 = Inr (1014, 1034)
   \<and> fft_range_index 1014 1034 1024 = Inl (OutOfRange 1014 1034)"
  by (simp add: fft_range_index_def)

text \<open>
  C4, as the code has it: for valid bounds the output is ordered; applying the function
  to its output returns the output again when the window does not straddle bin 0, and
  raises the range error when it does (\<open>start < 0 \<le> stop\<close>, resolved stop at least the
  length).
\<close>

theorem fft_range_index_ordered_idempotent:
  assumes "\<bar>start\<bar> < len" and "\<bar>stop\<bar> < len"
  shows "\<exists>a b. fft_range_index start stop len = Inr (a, b) \<and> a \<le> b
           \<and> (\<not> (start < 0 \<and> 0 \<le> stop) \<longrightarrow> fft_range_index a b len = Inr (a, b))
           \<and> (start < 0 \<and> 0 \<le> stop \<longrightarrow>
                len \<le> b \<and> fft_range_index a b len = Inl (OutOfRange a b))"
proof -
  from fft_range_index_sorted [OF assms] obtain a b where
    ab: "fft_range_index start stop len = Inr (a, b)" and le: "a \<le> b" by blast
  have "start < 0 \<and> 0 \<le> stop \<Longrightarrow> len \<le> b"
    using ab fft_range_index_valid [OF assms] by auto
  with ab le fft_range_index_again [OF assms ab] show ?thesis by auto
qed

theorem fft_range_index_ordered_idempotent_witness:
  "\<bar>100 :: int\<bar> < 1024 \<and> \<bar>- 50 :: int\<bar> < 1024
   \<and> fft_range_index 100 (- 50) 1024 = Inr (100, 974)
   \<and> fft_range_index 100 974 1024 = Inr (100, 974)
   \<and> \<bar>- 1 :: int\<bar> < 1024 \<and> \<bar>0 :: int\<bar> < 1024
   \<and> fft_range_index (- 1) 0 1024 = Inr (1023, 1024)
   \<and> fft_range_index 1023 1024 1024 = Inl (OutOfRange 1023 1024)"
  using fft_range_index_ordered_idempotent [of 100 1024 "- 50"]
    fft_range_index_ordered_idempotent [of "- 1" 1024 0]
  by (simp add: fft_range_index_def)

section \<open>Errors of the detector\<close>

lemma argmax_scan_bound: "besti < i \<Longrightarrow> argmax_scan best besti i xs < i + length xs"
proof (induction xs arbitrary: best besti i)
  case Nil
  then show ?case by simp
next
  case (Cons x xs)
  have "argmax_scan x i (Suc i) xs < Suc i + length xs"
    using Cons.IH [of i "Suc i" x] by simp
  moreover have "argmax_scan best besti (Suc i) xs < Suc i + length xs"
    using Cons.IH [of besti "Suc i" best] Cons.prems by simp
  ultimately show ?case by simp
qed

lemma np_argmax_Inr: "xs \<noteq> [] \<Longrightarrow> \<exists>i. np_argmax xs = Inr i \<and> i < length xs"
  using argmax_scan_bound [of 0 1]
  by (cases xs) (auto simp: np_argmax_def)

lemma length_lfilter: "length (lfilter b x) = length x"
  by (simp add: lfilter_def)

lemma filter_weights_Inr:
  "weights \<noteq> [] \<Longrightarrow>
     \<exists>f d. filter_weights mags weights = Inr (f, d) \<and> length f = length mags"
  using np_argmax_Inr [of weights]
  by (auto simp: filter_weights_def Let_def length_lfilter)

lemma get_window_Inr:
  assumes "\<bar>start\<bar> < int (length array)" and "\<bar>stop\<bar> < int (length array)"
  shows "\<exists>sel si. get_window array (Some (start, stop)) = Inr (sel, si) \<and> sel \<noteq> []"
proof -
  from fft_range_index_sorted [OF assms] obtain a b where
    ab: "fft_range_index start stop (int (length array)) = Inr (a, b)" "a \<le> b" by blast
  from assms have "array \<noteq> []" by auto
  with ab show ?thesis
    by (simp add: get_window_def np_take_wrap_def)
qed

lemma window_peak_Inr:
  assumes "\<bar>start\<bar> < int (length array)" and "\<bar>stop\<bar> < int (length array)"
    and "pf \<noteq> Some []"
  shows "\<exists>r. window_peak array (Some (start, stop)) pf = Inr r"
proof -
  from get_window_Inr [OF assms(1,2)] obtain sel si where
    g: "get_window array (Some (start, stop)) = Inr (sel, si)" "sel \<noteq> []" by blast
  show ?thesis
  proof (cases pf)
    case None
    with g np_argmax_Inr [of sel] show ?thesis
      by (auto simp: window_peak_def Let_def)
  next
    case (Some w)
    with assms have "w \<noteq> []" by simp
    from filter_weights_Inr [OF this, of sel] obtain f d where
      f: "filter_weights sel w = Inr (f, d)" "length f = length sel" by blast
    with g have "f \<noteq> []" by auto
    with g f Some np_argmax_Inr [of f] show ?thesis
      by (auto simp: window_peak_def Let_def)
  qed
qed

lemma window_peak_invalid:
  assumes "int (length array) \<le> \<bar>start\<bar> \<or> int (length array) \<le> \<bar>stop\<bar>"
  shows "window_peak array (Some (start, stop)) pf = Inl (OutOfRange start stop)"
  using fft_range_index_invalid [OF assms]
  by (simp add: window_peak_def get_window_def)

lemma window_peak_None: "window_peak xs None pf = window_peak xs (Some (0, - 1)) pf"
  by (simp add: window_peak_def get_window_def)

lemma detect_Inl_iff: "detect xs c w pf = Inl e \<longleftrightarrow> window_peak xs w pf = Inl e"
  by (auto simp: detect_def Let_def split: sum.splits prod.splits)

lemma detect_Inr_iff:
  "(\<exists>r. detect xs c w pf = Inr r) \<longleftrightarrow> (\<exists>r. window_peak xs w pf = Inr r)"
  by (auto simp: detect_def Let_def split: sum.splits prod.splits)

lemma detect_errors:
  assumes "pf \<noteq> Some []"
  shows "detect xs c (Some (start, stop)) pf = Inl e \<longleftrightarrow>
           e = OutOfRange start stop
           \<and> (int (length xs) \<le> \<bar>start\<bar> \<or> int (length xs) \<le> \<bar>stop\<bar>)"
proof (cases "\<bar>start\<bar> < int (length xs) \<and> \<bar>stop\<bar> < int (length xs)")
  case True
  with window_peak_Inr [of start xs stop pf] assms show ?thesis
    by (auto simp: detect_Inl_iff)
next
  case False
  then have "int (length xs) \<le> \<bar>start\<bar> \<or> int (length xs) \<le> \<bar>stop\<bar>" by auto
  from window_peak_invalid [OF this, of pf] False show ?thesis
    by (auto simp: detect_Inl_iff)
qed

lemma window_peak_empty_filter:
  assumes "\<bar>start\<bar> < int (length array)" and "\<bar>stop\<bar> < int (length array)"
  shows "window_peak array (Some (start, stop)) (Some []) = Inl EmptyArgmax"
proof -
  from get_window_Inr [OF assms] obtain sel si where
    "get_window array (Some (start, stop)) = Inr (sel, si)" by blast
  then show ?thesis
    by (simp add: window_peak_def filter_weights_def np_argmax_def)
qed

lemma detect_error_surface:
  "detect xs c (Some (start, stop)) pf = Inl e \<longleftrightarrow>
     (if int (length xs) \<le> \<bar>start\<bar> \<or> int (length xs) \<le> \<bar>stop\<bar>
      then e = OutOfRange start stop
      else pf = Some [] \<and> e = EmptyArgmax)"
proof (cases "int (length xs) \<le> \<bar>start\<bar> \<or> int (length xs) \<le> \<bar>stop\<bar>")
  case True
  from window_peak_invalid [OF this, of pf] True show ?thesis
    by (auto simp: detect_Inl_iff)
next
  case False
  then have v: "\<bar>start\<bar> < int (length xs)" "\<bar>stop\<bar> < int (length xs)" by auto
  show ?thesis
  proof (cases "pf = Some []")
    case True
    with window_peak_empty_filter [OF v] False show ?thesis
      by (auto simp: detect_Inl_iff)
  next
    case nonempty: False
    with detect_errors [OF nonempty, of xs c start stop e] False show ?thesis
      by auto
  qed
qed

text \<open>
  C5. The claim: \<open>fft_range_index\<close> raises the range error exactly when
  \<open>abs(start) >= length\<close> or \<open>abs(stop) >= length\<close>, returns normally otherwise, and this is
  the only error condition of the detector. The first two parts hold. The last fails on a
  peak filter with no weights: the window \<open>(1, 2)\<close> is in range for a spectrum of four
  bins, and \<open>detect\<close> still raises, from \<open>np.argmax(weights)\<close> in \<open>_filter\<close>. Such a filter
  is outside the documented input, whose weights are normalised to unit energy.
\<close>

theorem detect_empty_filter_counterexample:
  "\<bar>1 :: int\<bar> < int (length [5, 7, 1, 2 :: real])
   \<and> \<bar>2 :: int\<bar> < int (length [5, 7, 1, 2 :: real])
   \<and> detect [5, 7, 1, 2] (1, 1, 1) (Some (1, 2)) (Some []) = Inl EmptyArgmax
   \<and> EmptyArgmax \<noteq> OutOfRange 1 2"
  by (simp add: detect_def window_peak_def get_window_def fft_range_index_def
      np_take_wrap_def filter_weights_def np_argmax_def)

text \<open>
  C5, as the code has it. \<open>fft_range_index\<close> raises the range error exactly when
  \<open>abs(start) >= length\<close> or \<open>abs(stop) >= length\<close> (so for \<open>start = 1024\<close> and for
  \<open>stop = -1024\<close> with length 1024), and returns a pair otherwise. On a peak filter that
  is absent or has at least one weight it is the only error of \<open>detect\<close>: the call fails
  exactly when the window bounds (the default \<open>(0, -1)\<close> for \<open>window=None\<close>) violate the
  range condition, with that error, and returns a result otherwise. For any peak filter,
  out-of-range bounds give the range error, and in-range bounds give an error only when
  the filter has no weights, the one of \<open>np.argmax\<close>.
\<close>

theorem out_of_range_error_conditions:
  "(fft_range_index start stop len = Inl e \<longleftrightarrow>
      e = OutOfRange start stop \<and> (len \<le> \<bar>start\<bar> \<or> len \<le> \<bar>stop\<bar>))
   \<and> ((\<exists>r. fft_range_index start stop len = Inr r) \<longleftrightarrow> \<bar>start\<bar> < len \<and> \<bar>stop\<bar> < len)
   \<and> fft_range_index 1024 stop 1024 = Inl (OutOfRange 1024 stop)
   \<and> fft_range_index start (- 1024) 1024 = Inl (OutOfRange start (- 1024))
   \<and> (pf \<noteq> Some [] \<longrightarrow>
        (detect xs c (Some (start, stop)) pf = Inl e \<longleftrightarrow>
           e = OutOfRange start stop
           \<and> (int (length xs) \<le> \<bar>start\<bar> \<or> int (length xs) \<le> \<bar>stop\<bar>))
        \<and> ((\<exists>r. detect xs c (Some (start, stop)) pf = Inr r) \<longleftrightarrow>
             \<bar>start\<bar> < int (length xs) \<and> \<bar>stop\<bar> < int (length xs))
        \<and> (detect xs c None pf = Inl e \<longleftrightarrow> e = OutOfRange 0 (- 1) \<and> length xs \<le> 1))
   \<and> (detect xs c (Some (start, stop)) pf = Inl e \<longleftrightarrow>
        (if int (length xs) \<le> \<bar>start\<bar> \<or> int (length xs) \<le> \<bar>stop\<bar>
         then e = OutOfRange start stop
         else pf = Some [] \<and> e = EmptyArgmax))
   \<and> (detect xs c None pf = Inl e \<longleftrightarrow>
        (if length xs \<le> 1 then e = OutOfRange 0 (- 1)
         else pf = Some [] \<and> e = EmptyArgmax))"
proof -
  have a: "fft_range_index start stop len = Inl e \<longleftrightarrow>
      e = OutOfRange start stop \<and> (len \<le> \<bar>start\<bar> \<or> len \<le> \<bar>stop\<bar>)"
    using fft_range_index_Inl [of start stop len e] fft_range_index_invalid [of len start stop]
    by auto
  have b: "(\<exists>r. fft_range_index start stop len = Inr r) \<longleftrightarrow> \<bar>start\<bar> < len \<and> \<bar>stop\<bar> < len"
    by (auto simp: fft_range_index_def Let_def split: prod.splits)
  have c: "fft_range_index 1024 stop 1024 = Inl (OutOfRange 1024 stop)"
    and d: "fft_range_index start (- 1024) 1024 = Inl (OutOfRange start (- 1024))"
    by (simp_all add: fft_range_index_def)
  have e: "detect xs c (Some (start, stop)) pf = Inl e \<longleftrightarrow>
           e = OutOfRange start stop
           \<and> (int (length xs) \<le> \<bar>start\<bar> \<or> int (length xs) \<le> \<bar>stop\<bar>)"
    if "pf \<noteq> Some []"
    using detect_errors [OF that] .
  have f: "(\<exists>r. detect xs c (Some (start, stop)) pf = Inr r) \<longleftrightarrow>
             \<bar>start\<bar> < int (length xs) \<and> \<bar>stop\<bar> < int (length xs)"
    if "pf \<noteq> Some []"
  proof
    assume ex: "\<exists>r. detect xs c (Some (start, stop)) pf = Inr r"
    show "\<bar>start\<bar> < int (length xs) \<and> \<bar>stop\<bar> < int (length xs)"
    proof (rule ccontr)
      assume "\<not> (\<bar>start\<bar> < int (length xs) \<and> \<bar>stop\<bar> < int (length xs))"
      then have "int (length xs) \<le> \<bar>start\<bar> \<or> int (length xs) \<le> \<bar>stop\<bar>" by auto
      from window_peak_invalid [OF this, of pf] ex show False
        by (simp add: detect_Inr_iff del: split_paired_Ex)
    qed
  next
    assume "\<bar>start\<bar> < int (length xs) \<and> \<bar>stop\<bar> < int (length xs)"
    then show "\<exists>r. detect xs c (Some (start, stop)) pf = Inr r"
      using window_peak_Inr [of start xs stop pf] that
      by (simp add: detect_Inr_iff del: split_paired_Ex)
  qed
  have g: "detect xs c None pf = Inl e \<longleftrightarrow> e = OutOfRange 0 (- 1) \<and> length xs \<le> 1"
    if "pf \<noteq> Some []"
    using detect_errors [OF that, of xs c 0 "- 1" e]
    by (auto simp: detect_Inl_iff window_peak_None)
  have h: "detect xs c (Some (start, stop)) pf = Inl e \<longleftrightarrow>
        (if int (length xs) \<le> \<bar>start\<bar> \<or> int (length xs) \<le> \<bar>stop\<bar>
         then e = OutOfRange start stop
         else pf = Some [] \<and> e = EmptyArgmax)"
    by (rule detect_error_surface)
  have i: "detect xs c None pf = Inl e \<longleftrightarrow>
        (if length xs \<le> 1 then e = OutOfRange 0 (- 1)
         else pf = Some [] \<and> e = EmptyArgmax)"
    using detect_error_surface [of xs c 0 "- 1" pf e]
    by (auto simp: detect_Inl_iff window_peak_None)
  from a b c d e f g h i show ?thesis by blast
qed

theorem out_of_range_error_conditions_witness:
  "fft_range_index 0 1024 1024 = Inl (OutOfRange 0 1024)
   \<and> (\<exists>r. fft_range_index 0 1023 1024 = Inr r)
   \<and> (None :: real list option) \<noteq> Some []
   \<and> detect [1, 2] (0, 0, 0) (Some (0, 2)) None = Inl (OutOfRange 0 2)
   \<and> (\<exists>r. detect [1, 2] (0, 0, 0) (Some (0, 1)) None = Inr r)
   \<and> detect [1] (0, 0, 0) None None = Inl (OutOfRange 0 (- 1))
   \<and> detect [1, 2] (0, 0, 0) (Some (0, 1)) (Some []) = Inl EmptyArgmax
   \<and> detect [1, 2] (0, 0, 0) (Some (0, 2)) (Some []) = Inl (OutOfRange 0 2)"
  using out_of_range_error_conditions
      [where start = 0 and stop = 1024 and len = 1024 and e = "OutOfRange 0 1024"]
    out_of_range_error_conditions [where start = 0 and stop = 1023 and len = 1024]
    out_of_range_error_conditions
      [where pf = None and xs = "[1, 2]" and c = "(0, 0, 0)" and start = 0 and stop = 2
         and e = "OutOfRange 0 2"]
    out_of_range_error_conditions
      [where pf = None and xs = "[1, 2]" and c = "(0, 0, 0)" and start = 0 and stop = 1]
    out_of_range_error_conditions
      [where pf = None and xs = "[1]" and c = "(0, 0, 0)" and e = "OutOfRange 0 (- 1)"]
    out_of_range_error_conditions
      [where pf = "Some []" and xs = "[1, 2]" and c = "(0, 0, 0)" and start = 0 and stop = 1
         and e = EmptyArgmax]
    out_of_range_error_conditions
      [where pf = "Some []" and xs = "[1, 2]" and c = "(0, 0, 0)" and start = 0 and stop = 2
         and e = "OutOfRange 0 2"]
  by (simp del: split_paired_Ex)

section \<open>The default window\<close>

text \<open>
  C8. For every spectrum, coefficient triple and optional peak filter, \<open>detect\<close> with
  \<open>window=None\<close> returns exactly what \<open>detect\<close> with the window \<open>(0, -1)\<close> returns (the
  same result tuple, or the same error).
\<close>

theorem detect_default_window:
  "detect fft_mag thresh_coeffs None peak_filter
     = detect fft_mag thresh_coeffs (Some (0, - 1)) peak_filter"
  by (simp add: detect_def window_peak_def get_window_def)



section \<open>The peak index\<close>

text \<open>
  With a peak filter the delay is subtracted before the window offset is added, and
  nothing wraps an index below zero: on an all-zero spectrum the first maximum of the
  filtered window is bin 0, and a filter delay of 1 gives the index \<open>-1\<close>.
\<close>

lemma window_peak_negative_index: "window_peak [0, 0] None (Some [1, 0]) = Inr (- 1, 0)"
  by (simp add: window_peak_def get_window_def fft_range_index_def np_take_wrap_def
      np_argmax_def filter_weights_def lfilter_def upto.simps upt_rec Let_def)

text \<open>
  C2. The claim: the returned peak index is \<open>max_idx - delay + start_idx\<close>, wrapped by one
  subtraction of the length whenever it exceeds \<open>length - 1\<close>, so that it lies in
  \<open>0..length-1\<close>. The code wraps only when the index exceeds \<open>length\<close>: on the spectrum
  \<open>[2, 1]\<close> with the window \<open>(-1, 0)\<close>, which selects bin 1 and then bin 0, the peak is
  bin 0 and the returned index is 2, the length itself.
\<close>

theorem detect_peak_index_at_length:
  "detect [2, 1] (0, 0, 0) (Some (- 1, 0)) None = Inr (False, 2, 2, NaN)"
  by (simp add: detect_def window_peak_def get_window_def fft_range_index_def
      np_take_wrap_def np_argmax_def estimate_noise_def calculate_threshold_def
      Let_def upto.simps)

section \<open>A peak above the total energy\<close>

lemma window_peak_nonempty: "window_peak xs w pf = Inr r \<Longrightarrow> xs \<noteq> []"
  by (auto simp: window_peak_def get_window_def fft_range_index_def
      split: sum.splits option.splits prod.splits if_splits)

lemma estimate_noise_nan:
  assumes "xs \<noteq> []" and "(\<Sum>x\<leftarrow>xs. x\<^sup>2) < 2 * p\<^sup>2"
  shows "estimate_noise xs p = NaN"
proof -
  from assms have "0 \<le> int (length xs) - 1" by (cases xs) auto
  then have d: "0 \<le> (of_int (int (length xs) - 1) :: real)" by linarith
  have n: "(\<Sum>x\<leftarrow>xs. x\<^sup>2) - 2 * p\<^sup>2 < 0" using assms by simp
  show ?thesis
  proof (cases "(of_int (int (length xs) - 1) :: real) = 0")
    case True
    with n show ?thesis by (simp add: estimate_noise_def Let_def)
  next
    case False
    with d have "0 < (of_int (int (length xs) - 1) :: real)" by linarith
    with n have "((\<Sum>x\<leftarrow>xs. x\<^sup>2) - 2 * p\<^sup>2) / of_int (int (length xs) - 1) < 0"
      by (rule divide_neg_pos)
    with False show ?thesis by (simp add: estimate_noise_def Let_def)
  qed
qed

lemma calculate_threshold_unfold:
  "calculate_threshold xs (c, s, d) n =
     fl_sqrt (fl_add (fl_add (Fin c) (fl_mul (Fin s) (fl_mul n n)))
        (fl_mul (Fin d) (fl_mul (if d \<noteq> 0 then np_std xs else Fin 0)
                                (if d \<noteq> 0 then np_std xs else Fin 0))))"
  by (simp add: calculate_threshold_def Let_def)

lemma calculate_threshold_nan: "calculate_threshold xs (tc, ts, td) NaN = NaN"
proof -
  obtain t where "fl_mul (Fin td) (fl_mul (if td \<noteq> 0 then np_std xs else Fin 0)
                                (if td \<noteq> 0 then np_std xs else Fin 0)) = t" by simp
  then show ?thesis unfolding calculate_threshold_unfold by (cases t) simp_all
qed

text \<open>
  C10. When \<open>detect\<close> finds its peak (the window is in range) and the total energy of the
  spectrum is strictly below twice the squared peak magnitude, the noise estimate is NaN,
  the threshold is NaN (for every coefficient triple, so also when the snr coefficient is
  nonzero), and \<open>detect\<close> returns the verdict \<open>False\<close> together with the peak index and
  the peak magnitude that the peak search computed.
\<close>

theorem detect_nan_noise:
  assumes "window_peak fft_mag window pf = Inr (peak_idx, peak_mag)"
    and "(\<Sum>x\<leftarrow>fft_mag. x\<^sup>2) < 2 * peak_mag\<^sup>2"
  shows "estimate_noise fft_mag peak_mag = NaN
         \<and> calculate_threshold fft_mag (tc, ts, td) (estimate_noise fft_mag peak_mag) = NaN
         \<and> \<not> fl_gt (Fin peak_mag)
               (calculate_threshold fft_mag (tc, ts, td) (estimate_noise fft_mag peak_mag))
         \<and> detect fft_mag (tc, ts, td) window pf = Inr (False, peak_idx, peak_mag, NaN)"
  using estimate_noise_nan [OF window_peak_nonempty [OF assms(1)] assms(2)] assms(1)
  by (simp add: detect_def calculate_threshold_nan)

theorem detect_nan_noise_witness:
  "window_peak [1, 0] None None = Inr (0, 1)
   \<and> (\<Sum>x\<leftarrow>[1, 0 :: real]. x\<^sup>2) < 2 * 1\<^sup>2
   \<and> estimate_noise [1, 0] 1 = NaN
   \<and> detect [1, 0] (0, 1, 0) None None = Inr (False, 0, 1, NaN)"
  using detect_nan_noise [of "[1, 0]" None None 0 1 0 1 0]
  by (simp add: window_peak_def get_window_def fft_range_index_def np_take_wrap_def
      np_argmax_def upto.simps)

section \<open>The noise estimate\<close>

lemma estimate_noise_two_bins:
  assumes "2 \<le> length xs"
  shows "estimate_noise xs p =
     (if (\<Sum>x\<leftarrow>xs. x\<^sup>2) - 2 * p\<^sup>2 < 0 then NaN
      else Fin (sqrt (((\<Sum>x\<leftarrow>xs. x\<^sup>2) - 2 * p\<^sup>2) / (real (length xs) - 1))))"
proof -
  define E where "E = (\<Sum>x\<leftarrow>xs. x\<^sup>2) - 2 * p\<^sup>2"
  define D where "D = real (length xs) - 1"
  from assms have D: "0 < D" by (simp add: D_def)
  have "(of_int (int (length xs) - 1) :: real) = D" by (simp add: D_def)
  then have "estimate_noise xs p = fl_sqrt (fl_div (Fin E) (Fin D))"
    by (simp add: estimate_noise_def E_def)
  also have "\<dots> = (if E < 0 then NaN else Fin (sqrt (E / D)))"
    using D by (simp add: divide_less_0_iff)
  finally show ?thesis unfolding E_def D_def .
qed

lemma estimate_noise_flat:
  assumes "2 \<le> L"
  shows "estimate_noise (replicate L c) c = Fin (\<bar>c\<bar> * sqrt ((real L - 2) / (real L - 1)))"
proof -
  have E: "(\<Sum>x\<leftarrow>replicate L c. x\<^sup>2) - 2 * c\<^sup>2 = c\<^sup>2 * (real L - 2)"
    by (simp add: sum_list_replicate algebra_simps)
  from assms have nn: "\<not> c\<^sup>2 * (real L - 2) < 0" by (simp add: not_less)
  from assms have "2 \<le> length (replicate L c)" by simp
  from estimate_noise_two_bins [OF this, of c]
  have "estimate_noise (replicate L c) c = Fin (sqrt (c\<^sup>2 * (real L - 2) / (real L - 1)))"
    unfolding E using nn by simp
  also have "sqrt (c\<^sup>2 * (real L - 2) / (real L - 1))
               = \<bar>c\<bar> * sqrt ((real L - 2) / (real L - 1))"
    by (simp add: real_sqrt_mult real_sqrt_divide)
  finally show ?thesis .
qed

text \<open>
  C6. For a spectrum of length \<open>L \<ge> 2\<close> and a peak magnitude \<open>p\<close>, \<open>_estimate_noise\<close> returns
  the (numpy) square root of \<open>(sum of squares - 2 p^2) / (L - 1)\<close>: NaN when that power is
  negative, its real square root otherwise. On a flat spectrum of \<open>L\<close> bins of value \<open>c\<close>
  with peak \<open>c\<close> the result is \<open>abs(c) * sqrt((L - 2) / (L - 1))\<close>, which is
  \<open>c * sqrt((L - 2) / (L - 1))\<close> for a magnitude \<open>c \<ge> 0\<close>.
\<close>

theorem estimate_noise_formula:
  assumes "2 \<le> L" and "length fft_mag = L"
  shows "estimate_noise fft_mag p =
           (if (\<Sum>x\<leftarrow>fft_mag. x\<^sup>2) - 2 * p\<^sup>2 < 0 then NaN
            else Fin (sqrt (((\<Sum>x\<leftarrow>fft_mag. x\<^sup>2) - 2 * p\<^sup>2) / (real L - 1))))
         \<and> estimate_noise (replicate L c) c = Fin (\<bar>c\<bar> * sqrt ((real L - 2) / (real L - 1)))
         \<and> (0 \<le> c \<longrightarrow>
              estimate_noise (replicate L c) c = Fin (c * sqrt ((real L - 2) / (real L - 1))))"
  using estimate_noise_two_bins [of fft_mag p] estimate_noise_flat [of L c] assms
  by simp

theorem estimate_noise_formula_witness:
  "(2 :: nat) \<le> 3 \<and> length [1, 2, 2 :: real] = 3 \<and> (0 :: real) \<le> 2
   \<and> estimate_noise [1, 2, 2] 1 = Fin (sqrt (7 / 2))
   \<and> estimate_noise [2, 2, 2] 2 = Fin (2 * sqrt (1 / 2))"
  using estimate_noise_formula [of 3 "[1, 2, 2]" 1 2]
  by (simp add: numeral_3_eq_3)

section \<open>The threshold\<close>

lemma np_mean_nonneg: "(\<And>x. x \<in> set xs \<Longrightarrow> 0 \<le> x) \<Longrightarrow> 0 \<le> np_mean xs"
  by (simp add: np_mean_def sum_list_nonneg)

lemma np_var_nonneg: "0 \<le> np_var xs"
  unfolding np_var_def by (rule np_mean_nonneg) auto

lemma np_std_sq: "xs \<noteq> [] \<Longrightarrow> fl_mul (np_std xs) (np_std xs) = Fin (np_var xs)"
  using np_var_nonneg [of xs] by (simp add: np_std_def)

lemma stddev_term:
  "xs \<noteq> [] \<Longrightarrow>
   fl_mul (Fin d) (fl_mul (if d \<noteq> 0 then np_std xs else Fin 0)
                          (if d \<noteq> 0 then np_std xs else Fin 0))
     = Fin (d * np_var xs)"
  by (simp add: np_std_sq)

lemma stddev_term_empty:
  "fl_mul (Fin d) (fl_mul (if d \<noteq> 0 then np_std [] else Fin 0)
                          (if d \<noteq> 0 then np_std [] else Fin 0))
     = (if d \<noteq> 0 then NaN else Fin 0)"
  by (simp add: np_std_def)

lemma fl_square_cases:
  "fl_mul n n = NaN \<or> fl_mul n n = PInf \<or> (\<exists>a. 0 \<le> a \<and> fl_mul n n = Fin a)"
  by (cases n) auto

lemma threshold_mono_const:
  assumes "c \<le> c'"
  shows "\<not> fl_lt (calculate_threshold xs (c', s, d) n) (calculate_threshold xs (c, s, d) n)
         \<and> (calculate_threshold xs (c, s, d) n \<noteq> NaN \<longrightarrow>
              calculate_threshold xs (c', s, d) n \<noteq> NaN)"
proof -
  obtain t where t: "fl_mul (Fin d) (fl_mul (if d \<noteq> 0 then np_std xs else Fin 0)
                               (if d \<noteq> 0 then np_std xs else Fin 0)) = t" by simp
  obtain q where q: "fl_mul (Fin s) (fl_mul n n) = q" by simp
  show ?thesis unfolding calculate_threshold_unfold t q fl_lt_def using assms
    by (cases q; cases t) auto
qed

lemma threshold_mono_snr:
  assumes "s \<le> s'"
  shows "\<not> fl_lt (calculate_threshold xs (c, s', d) n) (calculate_threshold xs (c, s, d) n)
         \<and> (xs \<noteq> [] \<and> calculate_threshold xs (c, s, d) n \<noteq> NaN \<longrightarrow>
              calculate_threshold xs (c, s', d) n \<noteq> NaN)"
proof -
  obtain t where t: "fl_mul (Fin d) (fl_mul (if d \<noteq> 0 then np_std xs else Fin 0)
                               (if d \<noteq> 0 then np_std xs else Fin 0)) = t" by simp
  have tf: "\<exists>r. t = Fin r" if "xs \<noteq> []"
    using stddev_term [OF that, of d] t by simp
  from fl_square_cases [of n] show ?thesis
  proof (elim disjE exE conjE)
    assume "fl_mul n n = NaN"
    then show ?thesis unfolding calculate_threshold_unfold t fl_lt_def
      by (cases t) auto
  next
    assume "fl_mul n n = PInf"
    then show ?thesis unfolding calculate_threshold_unfold t fl_lt_def using assms tf
      by (cases t) (auto simp: inf_times_def)
  next
    fix a assume a: "0 \<le> a" "fl_mul n n = Fin a"
    with assms have "s * a \<le> s' * a" by (simp add: mult_right_mono)
    with a show ?thesis unfolding calculate_threshold_unfold t fl_lt_def
      by (cases t) auto
  qed
qed

lemma threshold_mono_stddev:
  assumes "d \<le> d'"
  shows "\<not> fl_lt (calculate_threshold xs (c, s, d') n) (calculate_threshold xs (c, s, d) n)
         \<and> (xs \<noteq> [] \<and> calculate_threshold xs (c, s, d) n \<noteq> NaN \<longrightarrow>
              calculate_threshold xs (c, s, d') n \<noteq> NaN)"
proof -
  obtain q where q: "fl_add (Fin c) (fl_mul (Fin s) (fl_mul n n)) = q" by simp
  show ?thesis
  proof (cases "xs = []")
    case True
    show ?thesis
      unfolding calculate_threshold_unfold True stddev_term_empty q fl_lt_def using assms
      by (cases q) auto
  next
    case False
    from assms np_var_nonneg [of xs] have "d * np_var xs \<le> d' * np_var xs"
      by (simp add: mult_right_mono)
    then show ?thesis
      unfolding calculate_threshold_unfold stddev_term [OF False] q fl_lt_def
      by (cases q) auto
  qed
qed

text \<open>
  C7. For every spectrum, every noise value and every coefficient triple, raising one of
  the three coefficients with the other two fixed never decreases the threshold of
  \<open>_calculate_threshold\<close>: the threshold at the larger coefficient is not below the
  threshold at the smaller one. This covers the stddev weight moving between zero (the
  standard deviation is not computed and taken as 0) and a nonzero value (it is
  computed). On a non-empty spectrum, moreover, a threshold that is a number (not NaN)
  stays a number when a coefficient is raised.
\<close>

theorem calculate_threshold_monotone:
  assumes "c \<le> c'" and "s \<le> s'" and "d \<le> d'"
  shows "\<not> fl_lt (calculate_threshold xs (c', s, d) n) (calculate_threshold xs (c, s, d) n)
         \<and> \<not> fl_lt (calculate_threshold xs (c, s', d) n) (calculate_threshold xs (c, s, d) n)
         \<and> \<not> fl_lt (calculate_threshold xs (c, s, d') n) (calculate_threshold xs (c, s, d) n)
         \<and> (xs \<noteq> [] \<and> calculate_threshold xs (c, s, d) n \<noteq> NaN \<longrightarrow>
              calculate_threshold xs (c', s, d) n \<noteq> NaN
              \<and> calculate_threshold xs (c, s', d) n \<noteq> NaN
              \<and> calculate_threshold xs (c, s, d') n \<noteq> NaN)"
  using threshold_mono_const [OF assms(1), of xs s d n]
    threshold_mono_snr [OF assms(2), of xs c d n]
    threshold_mono_stddev [OF assms(3), of xs c s n]
  by blast

theorem calculate_threshold_monotone_witness:
  "(0 :: real) \<le> 1 \<and> [1, 3 :: real] \<noteq> []
   \<and> calculate_threshold [1, 3] (0, 0, 0) (Fin 1) = Fin 0
   \<and> calculate_threshold [1, 3] (1, 0, 0) (Fin 1) = Fin 1
   \<and> calculate_threshold [1, 3] (0, 1, 0) (Fin 1) = Fin 1
   \<and> calculate_threshold [1, 3] (0, 0, 1) (Fin 1) = Fin 1
   \<and> \<not> fl_lt (Fin 1) (Fin 0)"
  using calculate_threshold_monotone [of 0 1 0 1 0 1 "[1, 3]" "Fin 1"]
  by (simp add: calculate_threshold_def np_std_def np_var_def np_mean_def fl_lt_def)

end
